theory Spec2Isabelle
  imports Main "HOL-Library.Sublist"
begin

section \<open>Python values and the dynamic operations the client uses\<close>

text \<open>
  The client of \<^verbatim>\<open>github_client.py\<close> works on parsed JSON: the value that
  \<^verbatim>\<open>response.json()\<close> returns and the dictionaries and lists nested in it. A JSON object is
  an association list that holds each key once, read with \<open>map_of\<close>. JSON numbers are
  integers here (Python's \<^verbatim>\<open>int\<close>): the client inspects of a number only whether it is
  zero, and the one number a model declares, the number of a project, is an \<^verbatim>\<open>int\<close>.
\<close>

datatype json =
    JNull
  | JBool bool
  | JNum int
  | JStr string
  | JList "json list"
  | JObj "(string \<times> json) list"

text \<open>
  Every exception the client can raise is a value. \<open>ValueError\<close> and \<open>PyException\<close> carry the
  message of the source; \<open>GraphQLException\<close> is the \<^verbatim>\<open>Exception(f"GraphQL errors: {...}")\<close> of
  \<^verbatim>\<open>_execute_query\<close> and carries the payload of the \<^verbatim>\<open>errors\<close> key. \<open>AttributeError\<close>, \<open>KeyError\<close>
  and \<open>TypeError\<close> are what Python raises for \<^verbatim>\<open>.get\<close> on a value that is no dictionary, for
  a missing key and for subscripting or iterating a value that allows neither.
  \<open>ValidationError\<close> is raised by the constructor of a pydantic model for an argument that
  is not of the declared type. \<open>TransportFailure\<close> is whatever the HTTP call raised:
  \<^verbatim>\<open>client.post\<close>, \<^verbatim>\<open>raise_for_status\<close> or \<^verbatim>\<open>response.json()\<close>.

  The constructor \<open>ValueError\<close> stands for the \<^verbatim>\<open>raise ValueError(...)\<close> statements of the client
  itself. In Python's hierarchy of exceptions the \<^verbatim>\<open>JSONDecodeError\<close> that
  \<^verbatim>\<open>response.json()\<close> raises is a subclass of \<^verbatim>\<open>ValueError\<close> too: \<open>is_ValueError\<close> holds of
  every value that \<^verbatim>\<open>except ValueError\<close> would catch.
\<close>

datatype transport_failure = RequestError | HTTPStatusError nat | JSONDecodeError

datatype error =
    ValueError string
  | PyException string
  | GraphQLException json
  | AttributeError
  | KeyError string
  | TypeError
  | ValidationError
  | TransportFailure transport_failure


definition and_then :: "error + 'a \<Rightarrow> ('a \<Rightarrow> error + 'b) \<Rightarrow> error + 'b" where
  "and_then r f = (case r of Inl e \<Rightarrow> Inl e | Inr x \<Rightarrow> f x)"

text \<open>Python's truth value of a JSON value: \<^verbatim>\<open>None\<close>, \<^verbatim>\<open>False\<close>, \<^verbatim>\<open>0\<close>, \<^verbatim>\<open>""\<close>, \<^verbatim>\<open>[]\<close> and \<^verbatim>\<open>{}\<close> are false.\<close>

fun truthy :: "json \<Rightarrow> bool" where
  "truthy JNull = False"
| "truthy (JBool b) = b"
| "truthy (JNum n) = (n \<noteq> 0)"
| "truthy (JStr s) = (s \<noteq> [])"
| "truthy (JList xs) = (xs \<noteq> [])"
| "truthy (JObj kvs) = (kvs \<noteq> [])"

text \<open>The truth value of an \<^verbatim>\<open>Optional[str]\<close> argument: \<^verbatim>\<open>None\<close> and \<^verbatim>\<open>""\<close> are false.\<close>

fun truthy_opt :: "string option \<Rightarrow> bool" where
  "truthy_opt None = False"
| "truthy_opt (Some s) = (s \<noteq> [])"

text \<open>
  A key of a dictionary must be hashable: a list or a dictionary as key raises \<open>TypeError\<close>.
\<close>

fun hashable :: "json \<Rightarrow> bool" where
  "hashable (JList xs) = False"
| "hashable (JObj kvs) = False"
| "hashable _ = True"

text \<open>\<^verbatim>\<open>d.get(k, default)\<close>: only a dictionary has the method.\<close>

fun py_get :: "json \<Rightarrow> string \<Rightarrow> json \<Rightarrow> error + json" where
  "py_get (JObj kvs) k d = Inr (case map_of kvs k of None \<Rightarrow> d | Some v \<Rightarrow> v)"
| "py_get _ k d = Inl AttributeError"

text \<open>\<^verbatim>\<open>d[k]\<close> with a string key: a missing key, or a value that takes no string subscript.\<close>

fun py_subscript :: "json \<Rightarrow> string \<Rightarrow> error + json" where
  "py_subscript (JObj kvs) k = (case map_of kvs k of None \<Rightarrow> Inl (KeyError k) | Some v \<Rightarrow> Inr v)"
| "py_subscript _ k = Inl TypeError"

text \<open>
  \<^verbatim>\<open>k in d\<close> with a string \<open>k\<close>: a key of a dictionary, an element of a list, a substring
  of a string; the other values are not containers.
\<close>

fun py_contains :: "string \<Rightarrow> json \<Rightarrow> error + bool" where
  "py_contains k (JObj kvs) = Inr (k \<in> set (map fst kvs))"
| "py_contains k (JList xs) = Inr (JStr k \<in> set xs)"
| "py_contains k (JStr s) = Inr (sublist k s)"
| "py_contains k _ = Inl TypeError"

text \<open>
  \<^verbatim>\<open>for x in v\<close>: the elements of a list, the keys of a dictionary, the characters of a
  string; the other values are not iterable.
\<close>

fun py_iter :: "json \<Rightarrow> error + json list" where
  "py_iter (JList xs) = Inr xs"
| "py_iter (JObj kvs) = Inr (map (\<lambda>kv. JStr (fst kv)) kvs)"
| "py_iter (JStr s) = Inr (map (\<lambda>c. JStr [c]) s)"
| "py_iter _ = Inl TypeError"

text \<open>A comprehension stops at the first element that raises.\<close>

fun map_result :: "('a \<Rightarrow> error + 'b) \<Rightarrow> 'a list \<Rightarrow> error + 'b list" where
  "map_result f [] = Inr []"
| "map_result f (x # xs) =
     and_then (f x) (\<lambda>y. and_then (map_result f xs) (\<lambda>ys. Inr (y # ys)))"

text \<open>
  \<^verbatim>\<open>d[k] = v\<close> on a dictionary kept in insertion order: an existing key keeps its place and
  takes the new value, a new key goes to the end.
\<close>

fun dict_set :: "'k \<Rightarrow> 'v \<Rightarrow> ('k \<times> 'v) list \<Rightarrow> ('k \<times> 'v) list" where
  "dict_set k v [] = [(k, v)]"
| "dict_set k v (p # ps) = (if fst p = k then (k, v) # ps else p # dict_set k v ps)"

text \<open>An \<^verbatim>\<open>Optional[str]\<close> argument as the JSON value sent in the variables.\<close>

fun json_of_opt :: "string option \<Rightarrow> json" where
  "json_of_opt None = JNull"
| "json_of_opt (Some s) = JStr s"

subsection \<open>The pydantic models\<close>

text \<open>
  \<^verbatim>\<open>GitHubProject\<close> and \<^verbatim>\<open>GitHubProjectItem\<close>. The fields carry the prefix \<open>p_\<close> and \<open>i_\<close>
  (\<open>p_id\<close> is \<^verbatim>\<open>GitHubProject.id\<close>, \<open>i_field_values\<close> is \<^verbatim>\<open>GitHubProjectItem.field_values\<close>).
  A dictionary of type \<^verbatim>\<open>Dict[str, Any]\<close> is an association list in insertion order.
\<close>

record GitHubProject =
  p_id :: string
  p_number :: int
  p_title :: string
  p_body :: "string option"
  p_state :: string
  p_url :: string
  p_owner :: "(string \<times> json) list"

record GitHubProjectItem =
  i_id :: string
  i_type :: string
  i_content :: "(string \<times> json) list option"
  i_field_values :: "(string \<times> json) list"
  i_project :: "(string \<times> json) list"

text \<open>
  The constructor of a model validates each argument against the declared type and raises
  one \<open>ValidationError\<close> otherwise. The conversions pydantic may apply to a value of another
  type are not part of the model: such a value is rejected.
\<close>

fun as_str :: "json \<Rightarrow> error + string" where
  "as_str (JStr s) = Inr s"
| "as_str _ = Inl ValidationError"

fun as_int :: "json \<Rightarrow> error + int" where
  "as_int (JNum n) = Inr n"
| "as_int _ = Inl ValidationError"

fun as_opt_str :: "json \<Rightarrow> error + string option" where
  "as_opt_str JNull = Inr None"
| "as_opt_str (JStr s) = Inr (Some s)"
| "as_opt_str _ = Inl ValidationError"

fun as_dict :: "json \<Rightarrow> error + (string \<times> json) list" where
  "as_dict (JObj kvs) = Inr kvs"
| "as_dict _ = Inl ValidationError"

fun as_opt_dict :: "json \<Rightarrow> error + (string \<times> json) list option" where
  "as_opt_dict JNull = Inr None"
| "as_opt_dict (JObj kvs) = Inr (Some kvs)"
| "as_opt_dict _ = Inl ValidationError"

text \<open>A dictionary built by the client may hold keys that are no strings; the model rejects it.\<close>

fun as_str_keys :: "(json \<times> json) list \<Rightarrow> error + (string \<times> json) list" where
  "as_str_keys [] = Inr []"
| "as_str_keys ((JStr k, v) # kvs) = and_then (as_str_keys kvs) (\<lambda>r. Inr ((k, v) # r))"
| "as_str_keys (_ # kvs) = Inl ValidationError"

definition new_GitHubProject ::
  "json \<Rightarrow> json \<Rightarrow> json \<Rightarrow> json \<Rightarrow> string \<Rightarrow> json \<Rightarrow> json \<Rightarrow> error + GitHubProject" where
  "new_GitHubProject id0 number0 title0 body0 state0 url0 owner0 =
     and_then (as_str id0) (\<lambda>i.
     and_then (as_int number0) (\<lambda>n.
     and_then (as_str title0) (\<lambda>t.
     and_then (as_opt_str body0) (\<lambda>b.
     and_then (as_str url0) (\<lambda>u.
     and_then (as_dict owner0) (\<lambda>ow.
       Inr \<lparr>p_id = i, p_number = n, p_title = t, p_body = b, p_state = state0,
            p_url = u, p_owner = ow\<rparr>))))))"

definition new_GitHubProjectItem ::
  "json \<Rightarrow> json \<Rightarrow> json \<Rightarrow> (json \<times> json) list \<Rightarrow> (string \<times> json) list
     \<Rightarrow> error + GitHubProjectItem" where
  "new_GitHubProjectItem id0 type0 content0 field_values0 project0 =
     and_then (as_str id0) (\<lambda>i.
     and_then (as_str type0) (\<lambda>t.
     and_then (as_opt_dict content0) (\<lambda>c.
     and_then (as_str_keys field_values0) (\<lambda>fv.
       Inr \<lparr>i_id = i, i_type = t, i_content = c, i_field_values = fv,
            i_project = project0\<rparr>))))"

section \<open>The client\<close>

subsection \<open>Construction\<close>

text \<open>
  \<^verbatim>\<open>GitHubClient.__init__\<close>. The environment is the function \<open>getenv\<close> from a variable's
  name to its value, \<open>None\<close> when the variable is not set.
\<close>

record GitHubClient =
  token :: string
  base_url :: string
  headers :: "(string \<times> string) list"

definition init :: "(string \<Rightarrow> string option) \<Rightarrow> string option \<Rightarrow> error + GitHubClient" where
  "init getenv token0 =
     (let tok = (if truthy_opt token0 then token0 else getenv ''GITHUB_TOKEN'')
      in if \<not> truthy_opt tok
         then Inl (ValueError ''GitHub token is required. Set GITHUB_TOKEN environment variable.'')
         else Inr \<lparr>token = the tok,
                   base_url = ''https://api.github.com/graphql'',
                   headers = [(''Authorization'', ''Bearer '' @ the tok),
                              (''Content-Type'', ''application/json''),
                              (''Accept'', ''application/vnd.github.v3+json'')]\<rparr>)"

subsection \<open>Executing a request\<close>

text \<open>
  The eight GraphQL documents of the client are constants of the source; each is named by
  the root field it queries or mutates. A request is what \<^verbatim>\<open>client.post\<close> receives. The
  HTTP call, \<^verbatim>\<open>raise_for_status\<close> and \<^verbatim>\<open>response.json()\<close> together are the function \<open>post\<close>,
  from a request to the parsed body or the failure raised.

  Every operation returns the list of requests it issued together with its result, so
  that a statement on the network calls is a statement on that list.
\<close>

datatype document =
    Q_repository_projectsV2
  | Q_repositoryOwner_projectsV2
  | Q_node_ProjectV2
  | Q_node_ProjectV2_items
  | M_addProjectV2DraftIssue
  | M_addProjectV2ItemById
  | Q_node_ProjectV2Item
  | M_deleteProjectV2Item

record request =
  req_url :: string
  req_headers :: "(string \<times> string) list"
  req_query :: document
  req_variables :: "(string \<times> json) list"

type_synonym executor = "request \<Rightarrow> transport_failure + json"

definition execute_query ::
  "GitHubClient \<Rightarrow> executor \<Rightarrow> document \<Rightarrow> (string \<times> json) list
     \<Rightarrow> request list \<times> (error + json)" where
  "execute_query self post query variables =
     (let req = \<lparr>req_url = base_url self, req_headers = headers self,
                 req_query = query, req_variables = variables\<rparr>
      in ([req],
          case post req of
            Inl f \<Rightarrow> Inl (TransportFailure f)
          | Inr data \<Rightarrow>
              and_then (py_contains ''errors'' data) (\<lambda>has_errors.
                if has_errors
                then and_then (py_subscript data ''errors'') (\<lambda>errs. Inl (GraphQLException errs))
                else py_get data ''data'' (JObj []))))"

subsection \<open>Projects\<close>

text \<open>
  The body of the comprehension of \<^verbatim>\<open>list_projects\<close>, which \<^verbatim>\<open>get_project\<close> repeats word for
  word: the arguments of the constructor are evaluated from left to right, then validated.
\<close>

definition project_of_node :: "json \<Rightarrow> error + GitHubProject" where
  "project_of_node project =
     and_then (py_subscript project ''id'') (\<lambda>i.
     and_then (py_subscript project ''number'') (\<lambda>n.
     and_then (py_subscript project ''title'') (\<lambda>t.
     and_then (py_get project ''shortDescription'' JNull) (\<lambda>b.
     and_then (py_get project ''public'' JNull) (\<lambda>pub.
     and_then (py_subscript project ''url'') (\<lambda>u.
     and_then (py_subscript project ''owner'') (\<lambda>ow.
       new_GitHubProject i n t b (if truthy pub then ''open'' else ''private'') u ow)))))))"

text \<open>
  \<^verbatim>\<open>list_projects\<close> up to the value of its variable \<^verbatim>\<open>projects_data\<close>: the choice of the
  query by \<^verbatim>\<open>if repo and owner\<close>, \<^verbatim>\<open>elif owner\<close>, \<^verbatim>\<open>else\<close>, and the path into the response.
\<close>

definition list_projects_data ::
  "GitHubClient \<Rightarrow> executor \<Rightarrow> string option \<Rightarrow> string option
     \<Rightarrow> request list \<times> (error + json)" where
  "list_projects_data self post owner repo =
     (if truthy_opt repo \<and> truthy_opt owner then
        (let variables = [(''owner'', json_of_opt owner), (''repo'', json_of_opt repo)];
             (reqs, r) = execute_query self post Q_repository_projectsV2 variables
         in (reqs,
             and_then r (\<lambda>data.
             and_then (py_get data ''repository'' (JObj [])) (\<lambda>a.
             and_then (py_get a ''projectsV2'' (JObj [])) (\<lambda>b.
               py_get b ''nodes'' (JList []))))))
      else if truthy_opt owner then
        (let variables = [(''owner'', json_of_opt owner)];
             (reqs, r) = execute_query self post Q_repositoryOwner_projectsV2 variables
         in (reqs,
             and_then r (\<lambda>data.
             and_then (py_get data ''repositoryOwner'' (JObj [])) (\<lambda>a.
             and_then (py_get a ''projectsV2'' (JObj [])) (\<lambda>b.
               py_get b ''nodes'' (JList []))))))
      else
        ([], Inl (ValueError
           (''Either '' @ [CHR 0x27] @ ''owner'' @ [CHR 0x27] @ '' or both '' @ [CHR 0x27]
            @ ''owner'' @ [CHR 0x27] @ '' and '' @ [CHR 0x27] @ ''repo'' @ [CHR 0x27]
            @ '' must be provided''))))"

definition list_projects ::
  "GitHubClient \<Rightarrow> executor \<Rightarrow> string option \<Rightarrow> string option
     \<Rightarrow> request list \<times> (error + GitHubProject list)" where
  "list_projects self post owner repo =
     (let (reqs, r) = list_projects_data self post owner repo
      in (reqs,
          and_then r (\<lambda>projects_data.
          and_then (py_iter projects_data) (map_result project_of_node))))"

definition get_project ::
  "GitHubClient \<Rightarrow> executor \<Rightarrow> string \<Rightarrow> request list \<times> (error + GitHubProject)" where
  "get_project self post project_id =
     (let variables = [(''projectId'', JStr project_id)];
          (reqs, r) = execute_query self post Q_node_ProjectV2 variables
      in (reqs,
          and_then r (\<lambda>data.
          and_then (py_get data ''node'' JNull) (\<lambda>project_data.
            if \<not> truthy project_data
            then Inl (ValueError (''Project with ID '' @ project_id @ '' not found''))
            else project_of_node project_data))))"

subsection \<open>Project items\<close>

text \<open>\<^verbatim>\<open>field_value.get("field", {}).get("name", d)\<close>, the field name a node resolves.\<close>

definition field_name :: "json \<Rightarrow> json \<Rightarrow> error + json" where
  "field_name field_value d =
     and_then (py_get field_value ''field'' (JObj [])) (\<lambda>f. py_get f ''name'' d)"

text \<open>
  \<^verbatim>\<open>field_value.get("text") or field_value.get("number") or field_value.get("name")\<close>: an
  operand is evaluated only when those before it are false, and the last one is the
  result when none is true.
\<close>

definition extract_value :: "json \<Rightarrow> error + json" where
  "extract_value field_value =
     and_then (py_get field_value ''text'' JNull) (\<lambda>t.
       if truthy t then Inr t
       else and_then (py_get field_value ''number'' JNull) (\<lambda>n.
         if truthy n then Inr n
         else py_get field_value ''name'' JNull))"

text \<open>
  The dictionary comprehension of \<^verbatim>\<open>list_project_items\<close> over the field-value nodes of one
  item, with the dictionary built so far as second argument: for each node the condition,
  then the key, then the value, then the insertion. Keys are compared as JSON values.
\<close>

fun field_values_comp :: "json list \<Rightarrow> (json \<times> json) list \<Rightarrow> error + (json \<times> json) list" where
  "field_values_comp [] acc = Inr acc"
| "field_values_comp (field_value # rest) acc =
     and_then (field_name field_value JNull) (\<lambda>c.
       if truthy c then
         and_then (field_name field_value (JStr [])) (\<lambda>k.
         and_then (extract_value field_value) (\<lambda>v.
           if hashable k then field_values_comp rest (dict_set k v acc) else Inl TypeError))
       else field_values_comp rest acc)"

text \<open>The body of the list comprehension of \<^verbatim>\<open>list_project_items\<close>, for one item.\<close>

definition item_of_node :: "string \<Rightarrow> json \<Rightarrow> error + GitHubProjectItem" where
  "item_of_node project_id item =
     and_then (py_subscript item ''id'') (\<lambda>i.
     and_then (py_subscript item ''type'') (\<lambda>t.
     and_then (py_get item ''content'' JNull) (\<lambda>c.
     and_then (py_get item ''fieldValues'' (JObj [])) (\<lambda>fvs.
     and_then (py_get fvs ''nodes'' (JList [])) (\<lambda>ns.
     and_then (py_iter ns) (\<lambda>nodes.
     and_then (field_values_comp nodes []) (\<lambda>fv.
       new_GitHubProjectItem i t c fv [(''id'', JStr project_id)])))))))"

definition list_project_items ::
  "GitHubClient \<Rightarrow> executor \<Rightarrow> string \<Rightarrow> request list \<times> (error + GitHubProjectItem list)" where
  "list_project_items self post project_id =
     (let variables = [(''projectId'', JStr project_id)];
          (reqs, r) = execute_query self post Q_node_ProjectV2_items variables
      in (reqs,
          and_then r (\<lambda>data.
          and_then (py_get data ''node'' (JObj [])) (\<lambda>a.
          and_then (py_get a ''items'' (JObj [])) (\<lambda>b.
          and_then (py_get b ''nodes'' (JList [])) (\<lambda>items_data.
          and_then (py_iter items_data) (map_result (item_of_node project_id))))))))"

definition create_project_item ::
  "GitHubClient \<Rightarrow> executor \<Rightarrow> string \<Rightarrow> string \<Rightarrow> string option \<Rightarrow> string option
     \<Rightarrow> string option \<Rightarrow> request list \<times> (error + GitHubProjectItem)" where
  "create_project_item self post project_id content_type content_id title body =
     (let (reqs, r) =
        (if content_type = ''DRAFT_ISSUE'' then
           (let variables =
                  [(''projectId'', JStr project_id),
                   (''title'', if truthy_opt title then json_of_opt title
                               else JStr ''New Draft Issue''),
                   (''body'', json_of_opt body)];
                (reqs, r) = execute_query self post M_addProjectV2DraftIssue variables
            in (reqs,
                and_then r (\<lambda>data.
                and_then (py_get data ''addProjectV2DraftIssue'' (JObj [])) (\<lambda>a.
                  py_get a ''projectItem'' JNull))))
         else if \<not> truthy_opt content_id then
           ([], Inl (ValueError ''content_id is required for non-draft issues''))
         else
           (let variables =
                  [(''projectId'', JStr project_id), (''contentId'', json_of_opt content_id)];
                (reqs, r) = execute_query self post M_addProjectV2ItemById variables
            in (reqs,
                and_then r (\<lambda>data.
                and_then (py_get data ''addProjectV2ItemById'' (JObj [])) (\<lambda>a.
                  py_get a ''item'' JNull)))))
      in (reqs,
          and_then r (\<lambda>item_data.
            if \<not> truthy item_data then Inl (PyException ''Failed to create project item'')
            else
              and_then (py_subscript item_data ''id'') (\<lambda>i.
              and_then (py_subscript item_data ''type'') (\<lambda>t.
              and_then (py_get item_data ''content'' JNull) (\<lambda>c.
                new_GitHubProjectItem i t c [] [(''id'', JStr project_id)]))))))"

definition update_project_item ::
  "GitHubClient \<Rightarrow> executor \<Rightarrow> string \<Rightarrow> string \<Rightarrow> (string \<times> json) list
     \<Rightarrow> request list \<times> (error + GitHubProjectItem)" where
  "update_project_item self post project_id item_id field_updates =
     (let variables = [(''itemId'', JStr item_id)];
          (reqs, r) = execute_query self post Q_node_ProjectV2Item variables
      in (reqs,
          and_then r (\<lambda>data.
          and_then (py_get data ''node'' JNull) (\<lambda>item_data.
            if \<not> truthy item_data
            then Inl (ValueError (''Project item with ID '' @ item_id @ '' not found''))
            else
              and_then (py_subscript item_data ''id'') (\<lambda>i.
              and_then (py_subscript item_data ''type'') (\<lambda>t.
              and_then (py_get item_data ''content'' JNull) (\<lambda>c.
                new_GitHubProjectItem i t c (map (\<lambda>kv. (JStr (fst kv), snd kv)) field_updates)
                  [(''id'', JStr project_id)])))))))"


section \<open>Example data\<close>

text \<open>
  The examples below run the client on fixed data: \<open>a_client\<close> is the client that \<open>init\<close>
  builds from the token \<^verbatim>\<open>tok\<close>, and \<open>fake_executor body\<close> answers every request with the
  parsed body \<open>body\<close>, and \<open>failing_executor failure\<close> fails on every request. The responses
  have the shape the GraphQL documents ask for.
\<close>

definition a_client :: GitHubClient where
  "a_client = \<lparr>token = ''tok'', base_url = ''https://api.github.com/graphql'',
               headers = [(''Authorization'', ''Bearer tok''),
                          (''Content-Type'', ''application/json''),
                          (''Accept'', ''application/vnd.github.v3+json'')]\<rparr>"

definition fake_executor :: "json \<Rightarrow> executor" where
  "fake_executor body req = Inr body"


definition items_response :: "json list \<Rightarrow> json" where
  "items_response field_value_nodes =
     JObj [(''data'', JObj [(''node'', JObj [(''items'', JObj [(''nodes'', JList
       [JObj [(''id'', JStr ''PVTI_1''), (''type'', JStr ''ISSUE''),
              (''fieldValues'', JObj [(''nodes'', JList field_value_nodes)])]])])])])]"

definition projects_response :: json where
  "projects_response =
     JObj [(''data'', JObj [(''repositoryOwner'', JObj [(''projectsV2'', JObj [(''nodes'', JList
       [JObj [(''id'', JStr ''PVT_1''), (''number'', JNum 1), (''title'', JStr ''Roadmap''),
              (''public'', JBool True), (''url'', JStr ''https://github.com/orgs/octo/projects/1''),
              (''owner'', JObj [(''name'', JStr ''octo'')])],
        JObj [(''id'', JStr ''PVT_2''), (''number'', JNum 2), (''title'', JStr ''Backlog''),
              (''url'', JStr ''https://github.com/orgs/octo/projects/2''),
              (''owner'', JObj [(''name'', JStr ''octo'')])]])])])])]"

definition item_response :: json where
  "item_response =
     JObj [(''data'', JObj [(''node'',
       JObj [(''id'', JStr ''PVTI_1''), (''type'', JStr ''DRAFT_ISSUE''),
             (''content'', JObj [(''title'', JStr ''Draft'')])])])]"

definition null_node_response :: json where
  "null_node_response = JObj [(''data'', JObj [(''node'', JNull)])]"





definition duplicate_nodes :: "json list" where
  "duplicate_nodes =
     [JObj [(''field'', JObj [(''name'', JStr ''Status'')]), (''name'', JStr ''Todo'')],
      JObj [(''field'', JObj [(''name'', JStr ''Points'')]), (''number'', JNum 3)],
      JObj [(''field'', JObj [(''name'', JStr ''Status'')]), (''name'', JStr ''Done'')]]"

definition example_nodes :: "json list" where
  "example_nodes =
     [JObj [(''field'', JObj [(''name'', JStr ''Status'')]), (''name'', JStr ''Done'')],
      JObj [(''field'', JObj [(''name'', JStr ''Points'')]), (''number'', JNum 3)],
      JObj [(''field'', JObj [(''name'', JStr [])]), (''text'', JStr ''x'')]]"

section \<open>Basic facts\<close>

lemma and_then_Inl [simp]: "and_then (Inl e) f = Inl e"
  by (simp add: and_then_def)

lemma and_then_Inr [simp]: "and_then (Inr x) f = f x"
  by (simp add: and_then_def)

lemma and_then_Inr_iff: "and_then r f = Inr y \<longleftrightarrow> (\<exists>x. r = Inr x \<and> f x = Inr y)"
  by (cases r) simp_all

lemma fst_execute_query:
  "fst (execute_query self post q vars) =
     [\<lparr>req_url = base_url self, req_headers = headers self, req_query = q, req_variables = vars\<rparr>]"
  by (simp add: execute_query_def Let_def)

lemma py_get_Inr: "py_get j k d = Inr v \<Longrightarrow> \<exists>kvs. j = JObj kvs"
  by (cases j) simp_all




lemma execute_query_fake:
  "''errors'' \<notin> set (map fst resp) \<Longrightarrow>
   execute_query self (fake_executor (JObj resp)) q vars =
     ([\<lparr>req_url = base_url self, req_headers = headers self, req_query = q, req_variables = vars\<rparr>],
      Inr (case map_of resp ''data'' of None \<Rightarrow> JObj [] | Some v \<Rightarrow> v))"
  by (simp add: execute_query_def Let_def fake_executor_def)

lemma init_a_client: "init Map.empty (Some ''tok'') = Inr a_client"
  by (simp add: init_def a_client_def)

section \<open>Construction of the client\<close>

text \<open>
  Claim C8. Construction resolves the credential with one precedence. A token passed as
  argument is the token of the client whatever the environment holds; when no token is
  passed, the value of \<^verbatim>\<open>GITHUB_TOKEN\<close> is; when neither is available, construction raises
  \<open>ValueError\<close> and no client is returned. A token or a variable is available when it is a
  non-empty string: \<^verbatim>\<open>token or os.getenv(...)\<close> and \<^verbatim>\<open>not self.token\<close> treat the empty
  string as \<^verbatim>\<open>None\<close>, and the three cases below cover every input.
\<close>

theorem init_credential_precedence:
  "(t \<noteq> [] \<longrightarrow> (\<exists>c. init getenv1 (Some t) = Inr c \<and> token c = t))
   \<and> ((tok = None \<or> tok = Some []) \<and> getenv2 ''GITHUB_TOKEN'' = Some e \<and> e \<noteq> []
        \<longrightarrow> (\<exists>c. init getenv2 tok = Inr c \<and> token c = e))
   \<and> ((tok3 = None \<or> tok3 = Some [])
        \<and> (getenv3 ''GITHUB_TOKEN'' = None \<or> getenv3 ''GITHUB_TOKEN'' = Some [])
        \<longrightarrow> (\<exists>m. init getenv3 tok3 = Inl (ValueError m)))"
proof (intro conjI impI)
  assume "t \<noteq> []"
  then show "\<exists>c. init getenv1 (Some t) = Inr c \<and> token c = t"
    by (simp add: init_def Let_def)
next
  assume a: "(tok = None \<or> tok = Some []) \<and> getenv2 ''GITHUB_TOKEN'' = Some e \<and> e \<noteq> []"
  then have "\<not> truthy_opt tok" by auto
  with a show "\<exists>c. init getenv2 tok = Inr c \<and> token c = e"
    by (simp add: init_def Let_def)
next
  assume a: "(tok3 = None \<or> tok3 = Some [])
        \<and> (getenv3 ''GITHUB_TOKEN'' = None \<or> getenv3 ''GITHUB_TOKEN'' = Some [])"
  then have "\<not> truthy_opt tok3" and "\<not> truthy_opt (getenv3 ''GITHUB_TOKEN'')" by auto
  then show "\<exists>m. init getenv3 tok3 = Inl (ValueError m)"
    by (simp add: init_def Let_def)
qed

theorem init_credential_precedence_witness:
  "(\<exists>c. init [''GITHUB_TOKEN'' \<mapsto> ''env''] (Some ''arg'') = Inr c \<and> token c = ''arg'')
   \<and> (\<exists>c. init [''GITHUB_TOKEN'' \<mapsto> ''env''] None = Inr c \<and> token c = ''env'')
   \<and> (\<exists>m. init Map.empty None = Inl (ValueError m))"
  using init_credential_precedence [where t = "''arg''"
      and ?getenv1.0 = "[''GITHUB_TOKEN'' \<mapsto> ''env'']"
      and tok = None and ?getenv2.0 = "[''GITHUB_TOKEN'' \<mapsto> ''env'']" and e = "''env''"
      and ?tok3.0 = None and ?getenv3.0 = Map.empty]
  by simp

section \<open>Listing projects\<close>

text \<open>
  Claim C2. \<^verbatim>\<open>list_projects\<close> with owner and repo issues exactly one request, the
  repository-scoped query with both variables; with the owner alone, exactly one request,
  the owner-scoped query over User and Organization; without an owner, with or without a
  repo, it raises \<open>ValueError\<close> and the list of requests is empty. An argument is supplied
  when it is a non-empty string, as \<^verbatim>\<open>if repo and owner\<close> and \<^verbatim>\<open>elif owner\<close> read it; the
  three cases cover every pair of arguments.
\<close>

theorem list_projects_query_variant:
  "(ow \<noteq> [] \<and> r \<noteq> [] \<longrightarrow>
      fst (list_projects self post (Some ow) (Some r)) =
        [\<lparr>req_url = base_url self, req_headers = headers self,
          req_query = Q_repository_projectsV2,
          req_variables = [(''owner'', JStr ow), (''repo'', JStr r)]\<rparr>])
   \<and> (ow \<noteq> [] \<and> (repo = None \<or> repo = Some []) \<longrightarrow>
      fst (list_projects self post (Some ow) repo) =
        [\<lparr>req_url = base_url self, req_headers = headers self,
          req_query = Q_repositoryOwner_projectsV2,
          req_variables = [(''owner'', JStr ow)]\<rparr>])
   \<and> (owner = None \<or> owner = Some [] \<longrightarrow>
      (\<exists>m. list_projects self post owner any_repo = ([], Inl (ValueError m))))"
proof (intro conjI impI)
  assume "ow \<noteq> [] \<and> r \<noteq> []"
  then show "fst (list_projects self post (Some ow) (Some r)) =
        [\<lparr>req_url = base_url self, req_headers = headers self,
          req_query = Q_repository_projectsV2,
          req_variables = [(''owner'', JStr ow), (''repo'', JStr r)]\<rparr>]"
    by (simp add: list_projects_def list_projects_data_def Let_def case_prod_beta
          fst_execute_query)
next
  assume a: "ow \<noteq> [] \<and> (repo = None \<or> repo = Some [])"
  then have "\<not> truthy_opt repo" by auto
  with a show "fst (list_projects self post (Some ow) repo) =
        [\<lparr>req_url = base_url self, req_headers = headers self,
          req_query = Q_repositoryOwner_projectsV2,
          req_variables = [(''owner'', JStr ow)]\<rparr>]"
    by (simp add: list_projects_def list_projects_data_def Let_def case_prod_beta
          fst_execute_query)
next
  assume "owner = None \<or> owner = Some []"
  then have "\<not> truthy_opt owner" by auto
  then show "\<exists>m. list_projects self post owner any_repo = ([], Inl (ValueError m))"
    by (simp add: list_projects_def list_projects_data_def)
qed

theorem list_projects_query_variant_witness:
  "fst (list_projects a_client (fake_executor JNull) (Some ''octo'') (Some ''site'')) =
     [\<lparr>req_url = base_url a_client, req_headers = headers a_client,
       req_query = Q_repository_projectsV2,
       req_variables = [(''owner'', JStr ''octo''), (''repo'', JStr ''site'')]\<rparr>]
   \<and> fst (list_projects a_client (fake_executor JNull) (Some ''octo'') None) =
     [\<lparr>req_url = base_url a_client, req_headers = headers a_client,
       req_query = Q_repositoryOwner_projectsV2,
       req_variables = [(''owner'', JStr ''octo'')]\<rparr>]
   \<and> (\<exists>m. list_projects a_client (fake_executor JNull) None (Some ''site'')
          = ([], Inl (ValueError m)))"
  using list_projects_query_variant [where ow = "''octo''" and r = "''site''"
      and self = a_client and post = "fake_executor JNull" and repo = None and owner = None
      and any_repo = "Some ''site''"]
  by simp

lemma map_result_Inr:
  "map_result f xs = Inr ys \<Longrightarrow>
     length ys = length xs \<and> (\<forall>i<length xs. f (xs ! i) = Inr (ys ! i))"
proof (induction xs arbitrary: ys)
  case Nil
  then show ?case by simp
next
  case (Cons x xs)
  from Cons.prems obtain y ys' where y: "f x = Inr y" and ys': "map_result f xs = Inr ys'"
    and eq: "ys = y # ys'"
    by (auto simp: and_then_Inr_iff)
  from Cons.IH [OF ys'] have len: "length ys' = length xs"
    and nth: "\<forall>i<length xs. f (xs ! i) = Inr (ys' ! i)" by simp_all
  show ?case
  proof (intro conjI allI impI)
    show "length ys = length (x # xs)" using len eq by simp
  next
    fix i assume "i < length (x # xs)"
    then show "f ((x # xs) ! i) = Inr (ys ! i)"
      using y nth eq by (cases i) simp_all
  qed
qed

lemma py_subscript_Inr: "py_subscript j k = Inr v \<Longrightarrow> \<exists>kvs. j = JObj kvs"
  by (cases j) simp_all

lemma project_of_node_state:
  assumes "project_of_node n = Inr p"
  shows "\<exists>kvs. n = JObj kvs \<and>
           p_state p = (if truthy (case map_of kvs ''public'' of None \<Rightarrow> JNull | Some v \<Rightarrow> v)
                        then ''open'' else ''private'')"
proof -
  from assms obtain i where "py_subscript n ''id'' = Inr i"
    by (auto simp: project_of_node_def and_then_Inr_iff)
  then obtain kvs where n: "n = JObj kvs" using py_subscript_Inr by blast
  from assms show ?thesis unfolding n
    by (auto simp: project_of_node_def new_GitHubProject_def and_then_Inr_iff)
qed

text \<open>
  Claim C6. Whenever \<^verbatim>\<open>list_projects\<close> returns, it returns one project for each node of
  the response, in order; each node is a dictionary; the state of the project is
  \<^verbatim>\<open>open\<close> when the node has \<^verbatim>\<open>public: true\<close>, \<^verbatim>\<open>private\<close> when it has \<^verbatim>\<open>public: false\<close> or
  no \<^verbatim>\<open>public\<close> key, and never anything but one of the two.
\<close>

theorem list_projects_state:
  assumes "snd (list_projects self post owner repo) = Inr ps"
  shows "\<exists>projects_data nodes.
           snd (list_projects_data self post owner repo) = Inr projects_data
         \<and> py_iter projects_data = Inr nodes
         \<and> length ps = length nodes
         \<and> (\<forall>i<length nodes. \<exists>kvs. nodes ! i = JObj kvs
              \<and> (map_of kvs ''public'' = Some (JBool True) \<longrightarrow> p_state (ps ! i) = ''open'')
              \<and> (map_of kvs ''public'' = Some (JBool False) \<or> map_of kvs ''public'' = None
                   \<longrightarrow> p_state (ps ! i) = ''private'')
              \<and> (p_state (ps ! i) = ''open'' \<or> p_state (ps ! i) = ''private''))"
proof -
  from assms obtain pd nodes where pd: "snd (list_projects_data self post owner repo) = Inr pd"
    and it: "py_iter pd = Inr nodes" and mr: "map_result project_of_node nodes = Inr ps"
    by (auto simp: list_projects_def Let_def case_prod_beta and_then_Inr_iff)
  from map_result_Inr [OF mr] have len: "length ps = length nodes"
    and nth: "\<forall>i<length nodes. project_of_node (nodes ! i) = Inr (ps ! i)" by simp_all
  have "\<exists>kvs. nodes ! i = JObj kvs
              \<and> (map_of kvs ''public'' = Some (JBool True) \<longrightarrow> p_state (ps ! i) = ''open'')
              \<and> (map_of kvs ''public'' = Some (JBool False) \<or> map_of kvs ''public'' = None
                   \<longrightarrow> p_state (ps ! i) = ''private'')
              \<and> (p_state (ps ! i) = ''open'' \<or> p_state (ps ! i) = ''private'')"
    if "i < length nodes" for i
  proof -
    from nth that have "project_of_node (nodes ! i) = Inr (ps ! i)" by simp
    from project_of_node_state [OF this] show ?thesis by auto
  qed
  with pd it len show ?thesis by blast
qed

theorem list_projects_state_witness:
  "snd (list_projects a_client (fake_executor projects_response) (Some ''octo'') None) =
     Inr [\<lparr>p_id = ''PVT_1'', p_number = 1, p_title = ''Roadmap'', p_body = None,
            p_state = ''open'', p_url = ''https://github.com/orgs/octo/projects/1'',
            p_owner = [(''name'', JStr ''octo'')]\<rparr>,
          \<lparr>p_id = ''PVT_2'', p_number = 2, p_title = ''Backlog'', p_body = None,
            p_state = ''private'', p_url = ''https://github.com/orgs/octo/projects/2'',
            p_owner = [(''name'', JStr ''octo'')]\<rparr>]
   \<and> (\<exists>projects_data nodes.
           snd (list_projects_data a_client (fake_executor projects_response) (Some ''octo'') None)
             = Inr projects_data
         \<and> py_iter projects_data = Inr nodes \<and> length nodes = 2)"
proof -
  let ?ps = "[\<lparr>p_id = ''PVT_1'', p_number = 1, p_title = ''Roadmap'', p_body = None,
            p_state = ''open'', p_url = ''https://github.com/orgs/octo/projects/1'',
            p_owner = [(''name'', JStr ''octo'')]\<rparr>,
          \<lparr>p_id = ''PVT_2'', p_number = 2, p_title = ''Backlog'', p_body = None,
            p_state = ''private'', p_url = ''https://github.com/orgs/octo/projects/2'',
            p_owner = [(''name'', JStr ''octo'')]\<rparr>]"
  have h: "snd (list_projects a_client (fake_executor projects_response) (Some ''octo'') None)
             = Inr ?ps"
    by (simp add: list_projects_def list_projects_data_def execute_query_fake
          projects_response_def project_of_node_def new_GitHubProject_def)
  from list_projects_state [OF h] obtain projects_data nodes where
    "snd (list_projects_data a_client (fake_executor projects_response) (Some ''octo'') None)
       = Inr projects_data" and "py_iter projects_data = Inr nodes"
    and "length ?ps = length nodes" by blast
  with h show ?thesis by auto
qed

section \<open>A node that is null\<close>

text \<open>
  Claim C9. When the request succeeds and the data of the response maps \<^verbatim>\<open>node\<close> to null,
  \<^verbatim>\<open>list_project_items\<close> returns no list: \<^verbatim>\<open>data.get("node", {})\<close> is \<^verbatim>\<open>None\<close>, the next
  \<^verbatim>\<open>.get\<close> raises \<open>AttributeError\<close>. On the same data \<^verbatim>\<open>get_project\<close> and
  \<^verbatim>\<open>update_project_item\<close> raise the \<open>ValueError\<close> that says the node was not found.
\<close>

theorem list_project_items_null_node:
  "(snd (execute_query self post Q_node_ProjectV2_items [(''projectId'', JStr project_id)])
       = Inr (JObj d) \<and> map_of d ''node'' = Some JNull
     \<longrightarrow> snd (list_project_items self post project_id) = Inl AttributeError)
   \<and> (snd (execute_query self post Q_node_ProjectV2 [(''projectId'', JStr project_id)])
       = Inr (JObj d) \<and> map_of d ''node'' = Some JNull
     \<longrightarrow> snd (get_project self post project_id) =
           Inl (ValueError (''Project with ID '' @ project_id @ '' not found'')))
   \<and> (snd (execute_query self post Q_node_ProjectV2Item [(''itemId'', JStr item_id)])
       = Inr (JObj d) \<and> map_of d ''node'' = Some JNull
     \<longrightarrow> snd (update_project_item self post project_id item_id field_updates) =
           Inl (ValueError (''Project item with ID '' @ item_id @ '' not found'')))"
  by (auto simp: list_project_items_def get_project_def update_project_item_def Let_def
        case_prod_beta)

theorem list_project_items_null_node_witness:
  "snd (list_project_items a_client (fake_executor null_node_response) ''PVT_9'') =
     Inl AttributeError
   \<and> snd (get_project a_client (fake_executor null_node_response) ''PVT_9'') =
     Inl (ValueError ''Project with ID PVT_9 not found'')
   \<and> snd (update_project_item a_client (fake_executor null_node_response) ''PVT_9'' ''PVTI_9'' []) =
     Inl (ValueError ''Project item with ID PVTI_9 not found'')"
proof -
  have e: "snd (execute_query a_client (fake_executor null_node_response) q vars)
             = Inr (JObj [(''node'', JNull)])" for q vars
    by (simp add: execute_query_fake null_node_response_def)
  show ?thesis
    using e list_project_items_null_node [where self = a_client
        and post = "fake_executor null_node_response" and project_id = "''PVT_9''"
        and item_id = "''PVTI_9''" and field_updates = "[]" and d = "[(''node'', JNull)]"]
    by simp
qed

section \<open>Flattening the field values of an item\<close>

text \<open>
  Claim C1 says that the value stored for a field-value node is the one value the node
  carries, also when that value is false in Python, such as the number 0 or the empty
  text. The chain of \<^verbatim>\<open>or\<close> skips a false value: for the single node
  \<^verbatim>\<open>{field: {name: "Points"}, number: 0}\<close> the text is absent, the number 0 is false, and
  the result is the last operand, the absent name. The mapping of the item binds
  \<^verbatim>\<open>Points\<close> to \<^verbatim>\<open>None\<close>, not to 0.
\<close>

theorem list_project_items_number_zero:
  "snd (list_project_items a_client
          (fake_executor (items_response
             [JObj [(''field'', JObj [(''name'', JStr ''Points'')]), (''number'', JNum 0)]]))
          ''PVT_1'') =
     Inr [\<lparr>i_id = ''PVTI_1'', i_type = ''ISSUE'', i_content = None,
           i_field_values = [(''Points'', JNull)], i_project = [(''id'', JStr ''PVT_1'')]\<rparr>]"
  by (simp add: list_project_items_def execute_query_fake items_response_def item_of_node_def
        field_name_def extract_value_def new_GitHubProjectItem_def)

lemma map_of_dict_set: "map_of (dict_set k v ps) = (map_of ps)(k \<mapsto> v)"
  by (induction ps) auto

lemma keys_dict_set: "set (map fst (dict_set k v ps)) = insert k (set (map fst ps))"
  by (induction ps) auto

lemma distinct_dict_set: "distinct (map fst ps) \<Longrightarrow> distinct (map fst (dict_set k v ps))"
proof (induction ps)
  case Nil
  then show ?case by simp
next
  case (Cons p ps)
  have "k \<noteq> fst p \<Longrightarrow> fst p \<notin> set (map fst (dict_set k v ps))"
    using Cons.prems unfolding keys_dict_set by auto
  with Cons show ?case by auto
qed

lemma field_name_Inr: "field_name fv d = Inr c \<Longrightarrow> \<exists>kvs. fv = JObj kvs"
  by (cases fv) (simp_all add: field_name_def)

lemma field_name_default:
  assumes "field_name fv JNull = Inr c" and "truthy c"
  shows "field_name fv (JStr []) = Inr c"
proof -
  from assms(1) obtain f where f: "py_get fv ''field'' (JObj []) = Inr f"
    and c: "py_get f ''name'' JNull = Inr c"
    by (auto simp: field_name_def and_then_Inr_iff)
  from c obtain fk where fk: "f = JObj fk" using py_get_Inr by blast
  from c assms(2) fk have "map_of fk ''name'' = Some c"
    by (cases "map_of fk ''name''") auto
  with f fk show ?thesis by (simp add: field_name_def)
qed

lemma extract_value_total: "\<exists>v. extract_value (JObj kvs) = Inr v"
  by (simp add: extract_value_def)

lemma comp_Cons_Inr:
  assumes "field_values_comp (fv # rest) acc = Inr fvs"
  shows "\<exists>c. field_name fv JNull = Inr c \<and>
           (if truthy c
            then \<exists>v. extract_value fv = Inr v \<and> hashable c
                     \<and> field_values_comp rest (dict_set c v acc) = Inr fvs
            else field_values_comp rest acc = Inr fvs)"
proof -
  from assms obtain c where c: "field_name fv JNull = Inr c"
    by (cases "field_name fv JNull") auto
  show ?thesis
  proof (cases "truthy c")
    case True
    from field_name_default [OF c True] have k: "field_name fv (JStr []) = Inr c" .
    from assms c True k show ?thesis
      by (auto simp: and_then_Inr_iff split: if_splits)
  next
    case False
    with assms c show ?thesis by simp
  qed
qed

lemma comp_lookup:
  assumes "field_values_comp nodes acc = Inr fvs" and "truthy k"
  shows "map_of fvs k =
           (if filter (\<lambda>fv. field_name fv JNull = Inr k) nodes = [] then map_of acc k
            else (case extract_value (last (filter (\<lambda>fv. field_name fv JNull = Inr k) nodes)) of
                    Inl e \<Rightarrow> None | Inr v \<Rightarrow> Some v))"
proof -
  define P where "P = (\<lambda>fv. field_name fv JNull = Inr k)"
  have "map_of fvs k =
           (if filter P nodes = [] then map_of acc k
            else (case extract_value (last (filter P nodes)) of
                    Inl e \<Rightarrow> None | Inr v \<Rightarrow> Some v))"
    using assms(1)
  proof (induction nodes arbitrary: acc)
    case Nil
    then show ?case by simp
  next
    case (Cons fv rest)
    from comp_Cons_Inr [OF Cons.prems] obtain c where c: "field_name fv JNull = Inr c"
      and step: "if truthy c
              then \<exists>v. extract_value fv = Inr v \<and> hashable c
                       \<and> field_values_comp rest (dict_set c v acc) = Inr fvs
              else field_values_comp rest acc = Inr fvs" by blast
    show ?case
    proof (cases "truthy c")
      case False
      with step have r: "field_values_comp rest acc = Inr fvs" by simp
      have "c \<noteq> k" using False assms(2) by auto
      then have "\<not> P fv" using c by (simp add: P_def)
      then have "filter P (fv # rest) = filter P rest" by simp
      with Cons.IH [OF r] show ?thesis by simp
    next
      case True
      with step obtain v where v: "extract_value fv = Inr v"
        and r: "field_values_comp rest (dict_set c v acc) = Inr fvs" by auto
      note IH = Cons.IH [OF r]
      show ?thesis
      proof (cases "c = k")
        case ck: True
        then have Pfv: "P fv" using c by (simp add: P_def)
        show ?thesis
        proof (cases "filter P rest = []")
          case True
          then have "filter P (fv # rest) = [fv]" using Pfv by simp
          moreover have "map_of fvs k = Some v" using IH True ck by (simp add: map_of_dict_set)
          ultimately show ?thesis using v by simp
        next
          case False
          then have "filter P (fv # rest) \<noteq> []"
            and "last (filter P (fv # rest)) = last (filter P rest)" using Pfv by simp_all
          with IH False show ?thesis by simp
        qed
      next
        case False
        then have "\<not> P fv" using c by (simp add: P_def)
        then have "filter P (fv # rest) = filter P rest" by simp
        moreover have "map_of (dict_set c v acc) k = map_of acc k"
          using False by (simp add: map_of_dict_set)
        ultimately show ?thesis using IH by simp
      qed
    qed
  qed
  then show ?thesis unfolding P_def .
qed

lemma comp_distinct:
  "field_values_comp nodes acc = Inr fvs \<Longrightarrow> distinct (map fst acc) \<Longrightarrow> distinct (map fst fvs)"
proof (induction nodes arbitrary: acc)
  case Nil
  then show ?case by simp
next
  case (Cons fv rest)
  from comp_Cons_Inr [OF Cons.prems(1)] obtain c where
    step: "if truthy c
            then \<exists>v. extract_value fv = Inr v \<and> hashable c
                     \<and> field_values_comp rest (dict_set c v acc) = Inr fvs
            else field_values_comp rest acc = Inr fvs" by blast
  show ?case
  proof (cases "truthy c")
    case False
    with step Cons.IH Cons.prems(2) show ?thesis by simp
  next
    case True
    with step obtain v where "field_values_comp rest (dict_set c v acc) = Inr fvs" by auto
    from Cons.IH [OF this distinct_dict_set [OF Cons.prems(2)]] show ?thesis .
  qed
qed

lemma comp_keys_truthy:
  "field_values_comp nodes acc = Inr fvs \<Longrightarrow> \<forall>k\<in>set (map fst acc). truthy k
     \<Longrightarrow> \<forall>k\<in>set (map fst fvs). truthy k"
proof (induction nodes arbitrary: acc)
  case Nil
  then show ?case by simp
next
  case (Cons fv rest)
  from comp_Cons_Inr [OF Cons.prems(1)] obtain c where
    step: "if truthy c
            then \<exists>v. extract_value fv = Inr v \<and> hashable c
                     \<and> field_values_comp rest (dict_set c v acc) = Inr fvs
            else field_values_comp rest acc = Inr fvs" by blast
  show ?case
  proof (cases "truthy c")
    case False
    with step Cons.IH Cons.prems(2) show ?thesis by simp
  next
    case True
    with step obtain v where r: "field_values_comp rest (dict_set c v acc) = Inr fvs" by auto
    have "\<forall>k\<in>set (map fst (dict_set c v acc)). truthy k"
      using True Cons.prems(2) unfolding keys_dict_set by simp
    from Cons.IH [OF r this] show ?thesis .
  qed
qed

lemma comp_filter:
  "field_values_comp nodes acc = Inr fvs \<Longrightarrow>
   field_values_comp
     (filter (\<lambda>fv. case field_name fv JNull of Inl e \<Rightarrow> False | Inr c \<Rightarrow> truthy c) nodes) acc
     = Inr fvs"
proof (induction nodes arbitrary: acc)
  case Nil
  then show ?case by simp
next
  case (Cons fv rest)
  from comp_Cons_Inr [OF Cons.prems(1)] obtain c where c: "field_name fv JNull = Inr c"
    and step: "if truthy c
            then \<exists>v. extract_value fv = Inr v \<and> hashable c
                     \<and> field_values_comp rest (dict_set c v acc) = Inr fvs
            else field_values_comp rest acc = Inr fvs" by blast
  show ?case
  proof (cases "truthy c")
    case False
    with step c Cons.IH show ?thesis by simp
  next
    case True
    with step obtain v where v: "extract_value fv = Inr v" and h: "hashable c"
      and r: "field_values_comp rest (dict_set c v acc) = Inr fvs" by auto
    from Cons.IH [OF r] c True v h field_name_default [OF c True] show ?thesis by simp
  qed
qed

lemma as_str_keys_Inr:
  "as_str_keys fvs = Inr d \<Longrightarrow> fvs = map (\<lambda>kv. (JStr (fst kv), snd kv)) d"
  by (induction fvs arbitrary: d rule: as_str_keys.induct) (auto simp: and_then_Inr_iff)

lemma map_of_JStr_keys: "map_of (map (\<lambda>kv. (JStr (fst kv), snd kv)) d) (JStr n) = map_of d n"
  by (induction d) auto

lemma distinct_JStr_keys:
  "distinct (map fst (map (\<lambda>kv. (JStr (fst kv), snd kv)) d)) \<Longrightarrow> distinct (map fst d)"
  by (induction d) (auto simp: image_iff)

lemma item_of_node_field_values:
  assumes "item_of_node project_id (JObj kvs) = Inr it"
    and "map_of kvs ''fieldValues'' = Some (JObj f)"
    and "map_of f ''nodes'' = Some (JList nodes)"
  shows "\<exists>fvs. field_values_comp nodes [] = Inr fvs \<and> as_str_keys fvs = Inr (i_field_values it)"
  using assms
  by (auto simp: item_of_node_def new_GitHubProjectItem_def and_then_Inr_iff)

text \<open>
  Claim C3. For an item whose field-value nodes are
  \<^verbatim>\<open>[{field:{name:"Status"}, name:"Done"}, {field:{name:"Points"}, number:3},
  {field:{name:""}, text:"x"}]\<close>, \<^verbatim>\<open>list_project_items\<close> returns the mapping
  \<^verbatim>\<open>{"Status": "Done", "Points": 3}\<close> and nothing else. In general, whenever the
  comprehension returns, the nodes whose field name is empty or absent contribute nothing:
  the comprehension over the other nodes alone returns the same mapping, and neither the
  empty string nor \<^verbatim>\<open>None\<close> is a key of it.
\<close>

theorem field_values_flattening:
  "snd (list_project_items a_client
          (fake_executor (items_response
             [JObj [(''field'', JObj [(''name'', JStr ''Status'')]), (''name'', JStr ''Done'')],
              JObj [(''field'', JObj [(''name'', JStr ''Points'')]), (''number'', JNum 3)],
              JObj [(''field'', JObj [(''name'', JStr [])]), (''text'', JStr ''x'')]]))
          ''PVT_1'') =
     Inr [\<lparr>i_id = ''PVTI_1'', i_type = ''ISSUE'', i_content = None,
           i_field_values = [(''Status'', JStr ''Done''), (''Points'', JNum 3)],
           i_project = [(''id'', JStr ''PVT_1'')]\<rparr>]
   \<and> (field_values_comp nodes [] = Inr fvs \<longrightarrow>
        field_values_comp
          (filter (\<lambda>fv. case field_name fv JNull of Inl e \<Rightarrow> False | Inr c \<Rightarrow> truthy c) nodes) []
          = Inr fvs
        \<and> JStr [] \<notin> set (map fst fvs) \<and> JNull \<notin> set (map fst fvs))"
proof (intro conjI impI)
  assume a: "field_values_comp nodes [] = Inr fvs"
  show "field_values_comp
          (filter (\<lambda>fv. case field_name fv JNull of Inl e \<Rightarrow> False | Inr c \<Rightarrow> truthy c) nodes) []
          = Inr fvs" using comp_filter [OF a] .
  from comp_keys_truthy [OF a] have t: "\<forall>k\<in>set (map fst fvs). truthy k" by simp
  show "JStr [] \<notin> set (map fst fvs)" using t by fastforce
  show "JNull \<notin> set (map fst fvs)" using t by fastforce
qed (simp add: list_project_items_def execute_query_fake items_response_def item_of_node_def
        field_name_def extract_value_def new_GitHubProjectItem_def)

theorem field_values_flattening_witness:
  "field_values_comp example_nodes [] =
     Inr [(JStr ''Status'', JStr ''Done''), (JStr ''Points'', JNum 3)]
   \<and> field_values_comp
       (filter (\<lambda>fv. case field_name fv JNull of Inl e \<Rightarrow> False | Inr c \<Rightarrow> truthy c)
          example_nodes) [] =
     Inr [(JStr ''Status'', JStr ''Done''), (JStr ''Points'', JNum 3)]"
proof -
  have h: "field_values_comp example_nodes [] =
     Inr [(JStr ''Status'', JStr ''Done''), (JStr ''Points'', JNum 3)]"
    by (simp add: example_nodes_def field_name_def extract_value_def)
  from h field_values_flattening [where nodes = example_nodes
      and fvs = "[(JStr ''Status'', JStr ''Done''), (JStr ''Points'', JNum 3)]"]
  show ?thesis by blast
qed

text \<open>
  Claim C10. When the item is built and at least one of its field-value nodes resolves the
  non-empty name \<open>n\<close>, the keys of \<^verbatim>\<open>field_values\<close> are pairwise distinct, so \<open>n\<close> is there
  once, and \<open>n\<close> is bound to the value extracted from the last node, in the order of the
  response, that resolves \<open>n\<close>.
\<close>

theorem field_values_last_wins:
  assumes "item_of_node project_id (JObj kvs) = Inr it"
    and "map_of kvs ''fieldValues'' = Some (JObj f)"
    and "map_of f ''nodes'' = Some (JList nodes)"
    and "n \<noteq> []"
    and "filter (\<lambda>fv. field_name fv JNull = Inr (JStr n)) nodes \<noteq> []"
  shows "distinct (map fst (i_field_values it))
       \<and> (\<exists>v. extract_value (last (filter (\<lambda>fv. field_name fv JNull = Inr (JStr n)) nodes)) = Inr v
              \<and> map_of (i_field_values it) n = Some v)"
proof -
  from item_of_node_field_values [OF assms(1-3)] obtain fvs
    where comp: "field_values_comp nodes [] = Inr fvs"
      and keys: "as_str_keys fvs = Inr (i_field_values it)" by blast
  from as_str_keys_Inr [OF keys]
  have fvs: "fvs = map (\<lambda>kv. (JStr (fst kv), snd kv)) (i_field_values it)" .
  have "distinct (map fst fvs)" using comp_distinct [OF comp] by simp
  then have d: "distinct (map fst (i_field_values it))"
    unfolding fvs by (rule distinct_JStr_keys)
  let ?named = "filter (\<lambda>fv. field_name fv JNull = Inr (JStr n)) nodes"
  have "last ?named \<in> set ?named" using assms(5) by (rule last_in_set)
  then have "field_name (last ?named) JNull = Inr (JStr n)" by simp
  then obtain o_kvs where "last ?named = JObj o_kvs" using field_name_Inr by blast
  then obtain v where v: "extract_value (last ?named) = Inr v"
    using extract_value_total by auto
  have "truthy (JStr n)" using assms(4) by simp
  from comp_lookup [OF comp this] assms(5) v have "map_of fvs (JStr n) = Some v" by simp
  then have "map_of (i_field_values it) n = Some v"
    unfolding fvs by (simp only: map_of_JStr_keys)
  with d v show ?thesis by blast
qed

theorem field_values_last_wins_witness:
  "item_of_node ''PVT_1''
     (JObj [(''id'', JStr ''PVTI_1''), (''type'', JStr ''ISSUE''),
            (''fieldValues'', JObj [(''nodes'', JList duplicate_nodes)])]) =
     Inr \<lparr>i_id = ''PVTI_1'', i_type = ''ISSUE'', i_content = None,
          i_field_values = [(''Status'', JStr ''Done''), (''Points'', JNum 3)],
          i_project = [(''id'', JStr ''PVT_1'')]\<rparr>
   \<and> map_of [(''Status'', JStr ''Done''), (''Points'', JNum 3)] ''Status'' = Some (JStr ''Done'')"
proof -
  let ?it = "\<lparr>i_id = ''PVTI_1'', i_type = ''ISSUE'', i_content = None,
          i_field_values = [(''Status'', JStr ''Done''), (''Points'', JNum 3)],
          i_project = [(''id'', JStr ''PVT_1'')]\<rparr>"
  have h: "item_of_node ''PVT_1''
     (JObj [(''id'', JStr ''PVTI_1''), (''type'', JStr ''ISSUE''),
            (''fieldValues'', JObj [(''nodes'', JList duplicate_nodes)])]) = Inr ?it"
    by (simp add: item_of_node_def duplicate_nodes_def field_name_def extract_value_def
          new_GitHubProjectItem_def)
  have f: "filter (\<lambda>fv. field_name fv JNull = Inr (JStr ''Status'')) duplicate_nodes =
             [JObj [(''field'', JObj [(''name'', JStr ''Status'')]), (''name'', JStr ''Todo'')],
              JObj [(''field'', JObj [(''name'', JStr ''Status'')]), (''name'', JStr ''Done'')]]"
    by (simp add: duplicate_nodes_def field_name_def)
  have a2: "map_of [(''id'', JStr ''PVTI_1''), (''type'', JStr ''ISSUE''),
            (''fieldValues'', JObj [(''nodes'', JList duplicate_nodes)])] ''fieldValues'' =
            Some (JObj [(''nodes'', JList duplicate_nodes)])"
    by simp
  have a3: "map_of [(''nodes'', JList duplicate_nodes)] ''nodes'' = Some (JList duplicate_nodes)"
    by simp
  have a4: "''Status'' \<noteq> []" by simp
  have a5: "filter (\<lambda>fv. field_name fv JNull = Inr (JStr ''Status'')) duplicate_nodes \<noteq> []"
    by (simp add: f)
  from field_values_last_wins [OF h a2 a3 a4 a5] h show ?thesis by simp
qed

section \<open>Creating, updating and deleting an item\<close>

text \<open>
  Claim C4. \<^verbatim>\<open>create_project_item\<close> with content type \<^verbatim>\<open>DRAFT_ISSUE\<close> and no title (\<^verbatim>\<open>None\<close>,
  or the empty string) issues exactly one request, the mutation that adds a draft issue,
  with the title \<^verbatim>\<open>New Draft Issue\<close>. With any other content type and no content id it
  raises \<open>ValueError\<close> and the list of requests is empty.
\<close>

theorem create_project_item_defaults:
  "(title = None \<or> title = Some [] \<longrightarrow>
      fst (create_project_item self post project_id ''DRAFT_ISSUE'' content_id title body) =
        [\<lparr>req_url = base_url self, req_headers = headers self,
          req_query = M_addProjectV2DraftIssue,
          req_variables = [(''projectId'', JStr project_id),
                           (''title'', JStr ''New Draft Issue''),
                           (''body'', json_of_opt body)]\<rparr>])
   \<and> (content_type \<noteq> ''DRAFT_ISSUE'' \<and> (cid = None \<or> cid = Some []) \<longrightarrow>
      create_project_item self post project_id content_type cid any_title any_body =
        ([], Inl (ValueError ''content_id is required for non-draft issues'')))"
proof (intro conjI impI)
  assume "title = None \<or> title = Some []"
  then have "\<not> truthy_opt title" by auto
  then show "fst (create_project_item self post project_id ''DRAFT_ISSUE'' content_id title body) =
        [\<lparr>req_url = base_url self, req_headers = headers self,
          req_query = M_addProjectV2DraftIssue,
          req_variables = [(''projectId'', JStr project_id),
                           (''title'', JStr ''New Draft Issue''),
                           (''body'', json_of_opt body)]\<rparr>]"
    by (simp add: create_project_item_def Let_def case_prod_beta fst_execute_query)
next
  assume a: "content_type \<noteq> ''DRAFT_ISSUE'' \<and> (cid = None \<or> cid = Some [])"
  then have "\<not> truthy_opt cid" by auto
  with a show "create_project_item self post project_id content_type cid any_title any_body =
        ([], Inl (ValueError ''content_id is required for non-draft issues''))"
    by (simp add: create_project_item_def)
qed

theorem create_project_item_defaults_witness:
  "fst (create_project_item a_client (fake_executor JNull) ''PVT_1'' ''DRAFT_ISSUE'' None None
          (Some ''text'')) =
     [\<lparr>req_url = base_url a_client, req_headers = headers a_client,
       req_query = M_addProjectV2DraftIssue,
       req_variables = [(''projectId'', JStr ''PVT_1''),
                        (''title'', JStr ''New Draft Issue''),
                        (''body'', JStr ''text'')]\<rparr>]
   \<and> create_project_item a_client (fake_executor JNull) ''PVT_1'' ''ISSUE'' None None None =
        ([], Inl (ValueError ''content_id is required for non-draft issues''))"
  using create_project_item_defaults [where title = None and self = a_client
      and post = "fake_executor JNull" and project_id = "''PVT_1''" and content_id = None
      and body = "Some ''text''" and content_type = "''ISSUE''" and cid = None
      and any_title = None and any_body = None]
  by simp

lemma as_str_keys_map: "as_str_keys (map (\<lambda>kv. (JStr (fst kv), snd kv)) d) = Inr d"
  by (induction d) auto

text \<open>
  Claim C5. \<^verbatim>\<open>update_project_item\<close> issues exactly one request on every call, the query
  that reads the item, and no mutation. Whenever it returns an item, the field values of
  that item are the \<^verbatim>\<open>field_updates\<close> of the caller, unchanged. It does return when the
  node read has an \<^verbatim>\<open>id\<close> and a \<^verbatim>\<open>type\<close> that are strings and a content that is a
  dictionary. When the data read has no \<^verbatim>\<open>node\<close> or maps it to null, it raises the
  \<open>ValueError\<close> that says the item was not found.
\<close>

theorem update_project_item_echo:
  "fst (update_project_item self post project_id item_id field_updates) =
     [\<lparr>req_url = base_url self, req_headers = headers self, req_query = Q_node_ProjectV2Item,
       req_variables = [(''itemId'', JStr item_id)]\<rparr>]
   \<and> (snd (update_project_item self post project_id item_id field_updates) = Inr item
        \<longrightarrow> i_field_values item = field_updates)
   \<and> (snd (execute_query self post Q_node_ProjectV2Item [(''itemId'', JStr item_id)]) = Inr (JObj d)
        \<and> map_of d ''node'' = Some (JObj n) \<and> map_of n ''id'' = Some (JStr i)
        \<and> map_of n ''type'' = Some (JStr t) \<and> map_of n ''content'' = Some (JObj c)
        \<longrightarrow> snd (update_project_item self post project_id item_id field_updates) =
              Inr \<lparr>i_id = i, i_type = t, i_content = Some c, i_field_values = field_updates,
                   i_project = [(''id'', JStr project_id)]\<rparr>)
   \<and> (snd (execute_query self post Q_node_ProjectV2Item [(''itemId'', JStr item_id)]) = Inr (JObj d2)
        \<and> (map_of d2 ''node'' = None \<or> map_of d2 ''node'' = Some JNull)
        \<longrightarrow> snd (update_project_item self post project_id item_id field_updates) =
              Inl (ValueError (''Project item with ID '' @ item_id @ '' not found'')))"
  by (auto simp: update_project_item_def Let_def case_prod_beta fst_execute_query
        new_GitHubProjectItem_def and_then_Inr_iff as_str_keys_map split: if_splits)

theorem update_project_item_echo_witness:
  "snd (update_project_item a_client (fake_executor item_response) ''PVT_1'' ''PVTI_1''
          [(''Status'', JStr ''Done'')]) =
     Inr \<lparr>i_id = ''PVTI_1'', i_type = ''DRAFT_ISSUE'',
          i_content = Some [(''title'', JStr ''Draft'')],
          i_field_values = [(''Status'', JStr ''Done'')],
          i_project = [(''id'', JStr ''PVT_1'')]\<rparr>
   \<and> snd (update_project_item a_client (fake_executor null_node_response) ''PVT_1'' ''PVTI_9''
          [(''Status'', JStr ''Done'')]) =
     Inl (ValueError ''Project item with ID PVTI_9 not found'')"
proof (rule conjI)
  have e: "snd (execute_query a_client (fake_executor item_response) Q_node_ProjectV2Item
                [(''itemId'', JStr ''PVTI_1'')]) =
           Inr (JObj [(''node'',
             JObj [(''id'', JStr ''PVTI_1''), (''type'', JStr ''DRAFT_ISSUE''),
                   (''content'', JObj [(''title'', JStr ''Draft'')])])])"
    by (simp add: execute_query_fake item_response_def)
  show "snd (update_project_item a_client (fake_executor item_response) ''PVT_1'' ''PVTI_1''
          [(''Status'', JStr ''Done'')]) =
     Inr \<lparr>i_id = ''PVTI_1'', i_type = ''DRAFT_ISSUE'',
          i_content = Some [(''title'', JStr ''Draft'')],
          i_field_values = [(''Status'', JStr ''Done'')],
          i_project = [(''id'', JStr ''PVT_1'')]\<rparr>"
    using e update_project_item_echo [where self = a_client
        and post = "fake_executor item_response" and project_id = "''PVT_1''"
        and item_id = "''PVTI_1''" and field_updates = "[(''Status'', JStr ''Done'')]"
        and d = "[(''node'',
             JObj [(''id'', JStr ''PVTI_1''), (''type'', JStr ''DRAFT_ISSUE''),
                   (''content'', JObj [(''title'', JStr ''Draft'')])])]"
        and n = "[(''id'', JStr ''PVTI_1''), (''type'', JStr ''DRAFT_ISSUE''),
                   (''content'', JObj [(''title'', JStr ''Draft'')])]"
        and i = "''PVTI_1''" and t = "''DRAFT_ISSUE''" and c = "[(''title'', JStr ''Draft'')]"]
    by simp
next
  have e: "snd (execute_query a_client (fake_executor null_node_response) Q_node_ProjectV2Item
                [(''itemId'', JStr ''PVTI_9'')]) = Inr (JObj [(''node'', JNull)])"
    by (simp add: execute_query_fake null_node_response_def)
  show "snd (update_project_item a_client (fake_executor null_node_response) ''PVT_1'' ''PVTI_9''
          [(''Status'', JStr ''Done'')]) =
     Inl (ValueError ''Project item with ID PVTI_9 not found'')"
    using e update_project_item_echo [where self = a_client
        and post = "fake_executor null_node_response" and project_id = "''PVT_1''"
        and item_id = "''PVTI_9''" and field_updates = "[(''Status'', JStr ''Done'')]"
        and ?d2.0 = "[(''node'', JNull)]"]
    by simp
qed








end
